theory Spec2Isabelle
  imports Main "HOL-Library.Word"
begin

unbundle bit_operations_syntax

section \<open>Status codes (msquic_winkernel.h, lines 43-79)\<close>

text \<open>
  \<^verbatim>\<open>QUIC_STATUS\<close> is \<^verbatim>\<open>NTSTATUS\<close>, a signed 32-bit integer (\<^verbatim>\<open>LONG\<close>). It is
  modelled as a 32-bit word; \<open>sint\<close> reads its two's complement value.
\<close>

type_synonym NTSTATUS = "32 word"
type_synonym QUIC_STATUS = NTSTATUS

text \<open>
  Modelled from the spec: the macro \<^verbatim>\<open>NT_SUCCESS\<close> is declared by the platform
  headers, which are not part of the sources at hand. The specification describes the
  classification as the host's native convention on the sign of the status value; the
  platform declares it as \<^verbatim>\<open>(((NTSTATUS)(Status)) >= 0)\<close>.
\<close>

definition NT_SUCCESS :: "NTSTATUS \<Rightarrow> bool" where
  "NT_SUCCESS Status = (0 \<le> sint Status)"

text \<open>\<^verbatim>\<open>#define QUIC_FAILED(X) (!NT_SUCCESS(X))\<close>\<close>

definition QUIC_FAILED :: "QUIC_STATUS \<Rightarrow> bool" where
  "QUIC_FAILED X = (\<not> NT_SUCCESS X)"

text \<open>\<^verbatim>\<open>#define QUIC_SUCCEEDED(X) NT_SUCCESS(X)\<close>\<close>

definition QUIC_SUCCEEDED :: "QUIC_STATUS \<Rightarrow> bool" where
  "QUIC_SUCCEEDED X = NT_SUCCESS X"

subsection \<open>The three status values the header defines itself\<close>

definition STATUS_QUIC_HANDSHAKE_FAILURE :: NTSTATUS where
  "STATUS_QUIC_HANDSHAKE_FAILURE = 0xC0240000"

definition STATUS_QUIC_VER_NEG_FAILURE :: NTSTATUS where
  "STATUS_QUIC_VER_NEG_FAILURE = 0xC0240001"

definition STATUS_QUIC_USER_CANCELED :: NTSTATUS where
  "STATUS_QUIC_USER_CANCELED = 0xC0240002"

subsection \<open>The platform's status values\<close>

text \<open>
  Modelled from the spec: the seventeen \<^verbatim>\<open>STATUS_*\<close> constants below come from the
  platform header \<^verbatim>\<open>ntstatus.h\<close>, which is not part of the sources at hand. The
  specification names the concepts they stand for; the numeric values are the ones the
  platform publishes for these names.
\<close>

definition STATUS_SUCCESS :: NTSTATUS where
  "STATUS_SUCCESS = 0x00000000"

definition STATUS_PENDING :: NTSTATUS where
  "STATUS_PENDING = 0x00000103"

definition STATUS_REPARSE :: NTSTATUS where
  "STATUS_REPARSE = 0x00000104"

definition STATUS_NO_MEMORY :: NTSTATUS where
  "STATUS_NO_MEMORY = 0xC0000017"

definition STATUS_INVALID_PARAMETER :: NTSTATUS where
  "STATUS_INVALID_PARAMETER = 0xC000000D"

definition STATUS_INVALID_DEVICE_STATE :: NTSTATUS where
  "STATUS_INVALID_DEVICE_STATE = 0xC0000184"

definition STATUS_NOT_SUPPORTED :: NTSTATUS where
  "STATUS_NOT_SUPPORTED = 0xC00000BB"

definition STATUS_NOT_FOUND :: NTSTATUS where
  "STATUS_NOT_FOUND = 0xC0000225"

definition STATUS_BUFFER_TOO_SMALL :: NTSTATUS where
  "STATUS_BUFFER_TOO_SMALL = 0xC0000023"

definition STATUS_CANCELLED :: NTSTATUS where
  "STATUS_CANCELLED = 0xC0000120"

definition STATUS_ADDRESS_ALREADY_EXISTS :: NTSTATUS where
  "STATUS_ADDRESS_ALREADY_EXISTS = 0xC000020A"

definition STATUS_CONNECTION_DISCONNECTED :: NTSTATUS where
  "STATUS_CONNECTION_DISCONNECTED = 0xC000020C"

definition STATUS_CONNECTION_ABORTED :: NTSTATUS where
  "STATUS_CONNECTION_ABORTED = 0xC0000241"

definition STATUS_HOST_UNREACHABLE :: NTSTATUS where
  "STATUS_HOST_UNREACHABLE = 0xC000023D"

definition STATUS_INTERNAL_ERROR :: NTSTATUS where
  "STATUS_INTERNAL_ERROR = 0xC00000E5"

definition STATUS_CONNECTION_REFUSED :: NTSTATUS where
  "STATUS_CONNECTION_REFUSED = 0xC0000236"

definition STATUS_CONNECTION_INVALID :: NTSTATUS where
  "STATUS_CONNECTION_INVALID = 0xC000023A"

subsection \<open>The mapping of the twenty protocol status concepts (lines 60-79)\<close>

definition QUIC_STATUS_SUCCESS :: QUIC_STATUS where
  "QUIC_STATUS_SUCCESS = STATUS_SUCCESS"

definition QUIC_STATUS_PENDING :: QUIC_STATUS where
  "QUIC_STATUS_PENDING = STATUS_PENDING"

definition QUIC_STATUS_CONTINUE :: QUIC_STATUS where
  "QUIC_STATUS_CONTINUE = STATUS_REPARSE"

definition QUIC_STATUS_OUT_OF_MEMORY :: QUIC_STATUS where
  "QUIC_STATUS_OUT_OF_MEMORY = STATUS_NO_MEMORY"

definition QUIC_STATUS_INVALID_PARAMETER :: QUIC_STATUS where
  "QUIC_STATUS_INVALID_PARAMETER = STATUS_INVALID_PARAMETER"

definition QUIC_STATUS_INVALID_STATE :: QUIC_STATUS where
  "QUIC_STATUS_INVALID_STATE = STATUS_INVALID_DEVICE_STATE"

definition QUIC_STATUS_NOT_SUPPORTED :: QUIC_STATUS where
  "QUIC_STATUS_NOT_SUPPORTED = STATUS_NOT_SUPPORTED"

definition QUIC_STATUS_NOT_FOUND :: QUIC_STATUS where
  "QUIC_STATUS_NOT_FOUND = STATUS_NOT_FOUND"

definition QUIC_STATUS_BUFFER_TOO_SMALL :: QUIC_STATUS where
  "QUIC_STATUS_BUFFER_TOO_SMALL = STATUS_BUFFER_TOO_SMALL"

definition QUIC_STATUS_HANDSHAKE_FAILURE :: QUIC_STATUS where
  "QUIC_STATUS_HANDSHAKE_FAILURE = STATUS_QUIC_HANDSHAKE_FAILURE"

definition QUIC_STATUS_ABORTED :: QUIC_STATUS where
  "QUIC_STATUS_ABORTED = STATUS_CANCELLED"

definition QUIC_STATUS_ADDRESS_IN_USE :: QUIC_STATUS where
  "QUIC_STATUS_ADDRESS_IN_USE = STATUS_ADDRESS_ALREADY_EXISTS"

definition QUIC_STATUS_CONNECTION_TIMEOUT :: QUIC_STATUS where
  "QUIC_STATUS_CONNECTION_TIMEOUT = STATUS_CONNECTION_DISCONNECTED"

definition QUIC_STATUS_CONNECTION_IDLE :: QUIC_STATUS where
  "QUIC_STATUS_CONNECTION_IDLE = STATUS_CONNECTION_ABORTED"

definition QUIC_STATUS_UNREACHABLE :: QUIC_STATUS where
  "QUIC_STATUS_UNREACHABLE = STATUS_HOST_UNREACHABLE"

definition QUIC_STATUS_INTERNAL_ERROR :: QUIC_STATUS where
  "QUIC_STATUS_INTERNAL_ERROR = STATUS_INTERNAL_ERROR"

definition QUIC_STATUS_SERVER_BUSY :: QUIC_STATUS where
  "QUIC_STATUS_SERVER_BUSY = STATUS_CONNECTION_REFUSED"

definition QUIC_STATUS_PROTOCOL_ERROR :: QUIC_STATUS where
  "QUIC_STATUS_PROTOCOL_ERROR = STATUS_CONNECTION_INVALID"

definition QUIC_STATUS_VER_NEG_ERROR :: QUIC_STATUS where
  "QUIC_STATUS_VER_NEG_ERROR = STATUS_QUIC_VER_NEG_FAILURE"

definition QUIC_STATUS_USER_CANCELED :: QUIC_STATUS where
  "QUIC_STATUS_USER_CANCELED = STATUS_QUIC_USER_CANCELED"

section \<open>Byte order (lines 81-88)\<close>

type_synonym uint8_t = "8 word"
type_synonym uint16_t = "16 word"
type_synonym uint32_t = "32 word"

text \<open>
  \<^verbatim>\<open>#define QuicNetByteSwapShort(x) ((uint16_t)((((x) & 0x00ff) << 8) | (((x) & 0xff00) >> 8)))\<close>

  The operand is a \<^verbatim>\<open>uint16_t\<close>; C promotes it to \<^verbatim>\<open>int\<close> before the masks and
  shifts, and the cast truncates the result to 16 bits. The promotion is the \<open>ucast\<close>
  to 32 bits (the promoted value is never negative), the cast the \<open>ucast\<close> back.
  Where the platform supplies \<^verbatim>\<open>RtlUshortByteSwap\<close> the header uses that routine, the
  platform's byte swap of a 16-bit value; the expression above is the header's own.
\<close>

definition QuicNetByteSwapShort :: "uint16_t \<Rightarrow> uint16_t" where
  "QuicNetByteSwapShort x =
     ucast (push_bit 8 ((ucast x :: 32 word) AND 0x00ff) OR
            drop_bit 8 ((ucast x :: 32 word) AND 0xff00))"

section \<open>The address value (lines 90-101)\<close>

text \<open>
  \<^verbatim>\<open>QUIC_ADDR\<close> is the platform's \<^verbatim>\<open>SOCKADDR_INET\<close>: a C union of
  \<^verbatim>\<open>SOCKADDR_IN Ipv4\<close>, \<^verbatim>\<open>SOCKADDR_IN6 Ipv6\<close> and \<^verbatim>\<open>ADDRESS_FAMILY si_family\<close>.
  The three members share one storage, and the code reads \<^verbatim>\<open>Ipv4.sin_port\<close> and
  \<^verbatim>\<open>Ipv6.sin6_scope_id\<close> whatever the family is. The value is therefore modelled as
  the bytes of that storage, and each member access as a load or store at the member's
  offset.
\<close>

type_synonym QUIC_ADDR = "uint8_t list"
type_synonym QUIC_ADDRESS_FAMILY = uint16_t

text \<open>
  Modelled from the spec: the declarations of \<^verbatim>\<open>SOCKADDR_IN\<close>, \<^verbatim>\<open>SOCKADDR_IN6\<close>,
  \<^verbatim>\<open>SOCKADDR_INET\<close> and of the \<^verbatim>\<open>AF_*\<close> constants are in the platform headers
  \<^verbatim>\<open>ws2def.h\<close> and \<^verbatim>\<open>ws2ipdef.h\<close>, which are not part of the sources at hand. The
  specification asks for the host's native socket-address layout (the family tag at an
  offset shared by both variants, then the port, a 4-byte IPv4 address, a 16-byte IPv6
  address and a 32-bit scope id). The offsets below are those of that layout:

  \<^verbatim>\<open>
  offset  SOCKADDR_IN          SOCKADDR_IN6
   0..1   sin_family           sin6_family         (si_family)
   2..3   sin_port             sin6_port
   4..7   sin_addr             sin6_flowinfo
   8..15  sin_zero             sin6_addr (bytes 0..7)
  16..23                       sin6_addr (bytes 8..15)
  24..27                       sin6_scope_id
  \<close>

  Multi-byte fields are read in the host's byte order, which is little-endian on every
  platform this header is compiled for.
\<close>

definition sizeof_QUIC_ADDR :: nat where
  "sizeof_QUIC_ADDR = 28"

definition QUIC_ADDR_wf :: "QUIC_ADDR \<Rightarrow> bool" where
  "QUIC_ADDR_wf Addr = (length Addr = sizeof_QUIC_ADDR)"

definition AF_UNSPEC :: QUIC_ADDRESS_FAMILY where
  "AF_UNSPEC = 0"

definition AF_INET :: QUIC_ADDRESS_FAMILY where
  "AF_INET = 2"

definition AF_INET6 :: QUIC_ADDRESS_FAMILY where
  "AF_INET6 = 23"

definition SI_FAMILY_OFFSET :: nat where
  "SI_FAMILY_OFFSET = 0"

definition QUIC_ADDR_V4_PORT_OFFSET :: nat where
  "QUIC_ADDR_V4_PORT_OFFSET = 2"

definition QUIC_ADDR_V4_IP_OFFSET :: nat where
  "QUIC_ADDR_V4_IP_OFFSET = 4"

definition QUIC_ADDR_V6_PORT_OFFSET :: nat where
  "QUIC_ADDR_V6_PORT_OFFSET = 2"

definition QUIC_ADDR_V6_IP_OFFSET :: nat where
  "QUIC_ADDR_V6_IP_OFFSET = 8"

definition QUIC_ADDR_V6_SCOPE_ID_OFFSET :: nat where
  "QUIC_ADDR_V6_SCOPE_ID_OFFSET = 24"

definition sizeof_IN_ADDR :: nat where
  "sizeof_IN_ADDR = 4"

definition sizeof_IN6_ADDR :: nat where
  "sizeof_IN6_ADDR = 16"

subsection \<open>Loads and stores\<close>

definition load_u16 :: "QUIC_ADDR \<Rightarrow> nat \<Rightarrow> uint16_t" where
  "load_u16 m off = ucast (m ! off) OR push_bit 8 (ucast (m ! (off + 1)))"

definition store_u16 :: "QUIC_ADDR \<Rightarrow> nat \<Rightarrow> uint16_t \<Rightarrow> QUIC_ADDR" where
  "store_u16 m off v = m[off := ucast v, off + 1 := ucast (drop_bit 8 v)]"

definition load_u32 :: "QUIC_ADDR \<Rightarrow> nat \<Rightarrow> uint32_t" where
  "load_u32 m off =
     ucast (m ! off) OR push_bit 8 (ucast (m ! (off + 1))) OR
     push_bit 16 (ucast (m ! (off + 2))) OR push_bit 24 (ucast (m ! (off + 3)))"

text \<open>The \<open>n\<close> bytes that start at offset \<open>off\<close>.\<close>

definition load_bytes :: "QUIC_ADDR \<Rightarrow> nat \<Rightarrow> nat \<Rightarrow> uint8_t list" where
  "load_bytes m off n = take n (drop off m)"

subsection \<open>Member accesses\<close>

definition si_family :: "QUIC_ADDR \<Rightarrow> QUIC_ADDRESS_FAMILY" where
  "si_family Addr = load_u16 Addr SI_FAMILY_OFFSET"

definition Ipv4_sin_port :: "QUIC_ADDR \<Rightarrow> uint16_t" where
  "Ipv4_sin_port Addr = load_u16 Addr QUIC_ADDR_V4_PORT_OFFSET"

definition Ipv6_sin6_port :: "QUIC_ADDR \<Rightarrow> uint16_t" where
  "Ipv6_sin6_port Addr = load_u16 Addr QUIC_ADDR_V6_PORT_OFFSET"

definition Ipv4_sin_addr :: "QUIC_ADDR \<Rightarrow> uint8_t list" where
  "Ipv4_sin_addr Addr = load_bytes Addr QUIC_ADDR_V4_IP_OFFSET sizeof_IN_ADDR"

definition Ipv6_sin6_addr :: "QUIC_ADDR \<Rightarrow> uint8_t list" where
  "Ipv6_sin6_addr Addr = load_bytes Addr QUIC_ADDR_V6_IP_OFFSET sizeof_IN6_ADDR"

definition Ipv6_sin6_scope_id :: "QUIC_ADDR \<Rightarrow> uint32_t" where
  "Ipv6_sin6_scope_id Addr = load_u32 Addr QUIC_ADDR_V6_SCOPE_ID_OFFSET"

subsection \<open>The library's \<^verbatim>\<open>memcmp\<close>\<close>

text \<open>
  \<^verbatim>\<open>memcmp(p, q, n)\<close> compares the first \<open>n\<close> bytes at \<open>p\<close> and \<open>q\<close> as unsigned
  bytes; its sign is that of the first difference. The two buffers are passed as the
  bytes from the pointer onwards. The code only ever tests the result against 0, and
  every call stays inside the 28 bytes of an address, so the second equation only
  serves the length 0.
\<close>

fun memcmp :: "uint8_t list \<Rightarrow> uint8_t list \<Rightarrow> nat \<Rightarrow> int" where
  "memcmp (x # xs) (y # ys) (Suc n) =
     (if x = y then memcmp xs ys n else if x < y then - 1 else 1)"
| "memcmp xs ys n = 0"

section \<open>Address operations (lines 103-246)\<close>

definition QuicAddrIsValid :: "QUIC_ADDR \<Rightarrow> bool" where
  "QuicAddrIsValid Addr =
     (si_family Addr = AF_UNSPEC \<or> si_family Addr = AF_INET \<or> si_family Addr = AF_INET6)"

definition QuicAddrCompareIp :: "QUIC_ADDR \<Rightarrow> QUIC_ADDR \<Rightarrow> bool" where
  "QuicAddrCompareIp Addr1 Addr2 =
     (if si_family Addr1 = AF_INET then
        memcmp (drop QUIC_ADDR_V4_IP_OFFSET Addr1) (drop QUIC_ADDR_V4_IP_OFFSET Addr2)
          sizeof_IN_ADDR = 0
      else
        memcmp (drop QUIC_ADDR_V6_IP_OFFSET Addr1) (drop QUIC_ADDR_V6_IP_OFFSET Addr2)
          sizeof_IN6_ADDR = 0)"

definition QuicAddrCompare :: "QUIC_ADDR \<Rightarrow> QUIC_ADDR \<Rightarrow> bool" where
  "QuicAddrCompare Addr1 Addr2 =
     (if si_family Addr1 \<noteq> si_family Addr2 \<or> Ipv4_sin_port Addr1 \<noteq> Ipv4_sin_port Addr2
      then False
      else QuicAddrCompareIp Addr1 Addr2)"

text \<open>\<^verbatim>\<open>const IN_ADDR ZeroAddr = {0};\<close> and \<^verbatim>\<open>const IN6_ADDR ZeroAddr = {0};\<close>\<close>

definition ZeroAddr :: "nat \<Rightarrow> uint8_t list" where
  "ZeroAddr n = replicate n 0"

definition QuicAddrIsWildCard :: "QUIC_ADDR \<Rightarrow> bool" where
  "QuicAddrIsWildCard Addr =
     (if si_family Addr = AF_UNSPEC then True
      else if si_family Addr = AF_INET then
        memcmp (drop QUIC_ADDR_V4_IP_OFFSET Addr) (ZeroAddr sizeof_IN_ADDR) sizeof_IN_ADDR = 0
      else
        memcmp (drop QUIC_ADDR_V6_IP_OFFSET Addr) (ZeroAddr sizeof_IN6_ADDR) sizeof_IN6_ADDR = 0)"

definition QuicAddrGetFamily :: "QUIC_ADDR \<Rightarrow> uint16_t" where
  "QuicAddrGetFamily Addr = si_family Addr"

definition QuicAddrSetFamily :: "QUIC_ADDR \<Rightarrow> uint16_t \<Rightarrow> QUIC_ADDR" where
  "QuicAddrSetFamily Addr Family = store_u16 Addr SI_FAMILY_OFFSET Family"

definition QuicAddrGetPort :: "QUIC_ADDR \<Rightarrow> uint16_t" where
  "QuicAddrGetPort Addr = QuicNetByteSwapShort (Ipv4_sin_port Addr)"

definition QuicAddrSetPort :: "QUIC_ADDR \<Rightarrow> uint16_t \<Rightarrow> QUIC_ADDR" where
  "QuicAddrSetPort Addr Port =
     store_u16 Addr QUIC_ADDR_V4_PORT_OFFSET (QuicNetByteSwapShort Port)"

definition QuicAddrIsBoundExplicitly :: "QUIC_ADDR \<Rightarrow> bool" where
  "QuicAddrIsBoundExplicitly Addr = (Ipv6_sin6_scope_id Addr = 0)"

text \<open>
  \<^verbatim>\<open>s_b1\<close> and \<^verbatim>\<open>s_b4\<close> are the first and the fourth byte of \<^verbatim>\<open>sin_addr\<close>;
  \<^verbatim>\<open>u.Byte[15]\<close> is the last byte of \<^verbatim>\<open>sin6_addr\<close>.
\<close>

definition QuicAddrSetToLoopback :: "QUIC_ADDR \<Rightarrow> QUIC_ADDR" where
  "QuicAddrSetToLoopback Addr =
     (if si_family Addr = AF_INET then
        Addr[QUIC_ADDR_V4_IP_OFFSET := 127, QUIC_ADDR_V4_IP_OFFSET + 3 := 1]
      else
        Addr[QUIC_ADDR_V6_IP_OFFSET + 15 := 1])"

subsection \<open>Hashing (lines 224-246)\<close>

text \<open>
  \<^verbatim>\<open>#define UPDATE_HASH(byte) Hash = ((Hash << 5) - Hash) + (byte)\<close>

  \<^verbatim>\<open>Hash\<close> is a \<^verbatim>\<open>uint32_t\<close>, so the arithmetic wraps modulo \<open>2 ^ 32\<close>; the operand
  is converted to \<^verbatim>\<open>uint32_t\<close> before the addition.
\<close>

definition UPDATE_HASH :: "uint32_t \<Rightarrow> uint32_t \<Rightarrow> uint32_t" where
  "UPDATE_HASH Hash byte = (push_bit 5 Hash - Hash) + byte"

text \<open>
  \<^verbatim>\<open>for (uint8_t i = 0; i < sizeof(...); ++i) { UPDATE_HASH(((uint8_t*)p)[i]); }\<close>
  with \<open>p\<close> at offset \<open>base\<close> and the size \<open>n\<close>. The size is 4 or 16, so the 8-bit
  counter never wraps and is modelled as a natural number.
\<close>

function hash_loop :: "QUIC_ADDR \<Rightarrow> nat \<Rightarrow> nat \<Rightarrow> nat \<Rightarrow> uint32_t \<Rightarrow> uint32_t" where
  "hash_loop Addr base n i Hash =
     (if i < n then hash_loop Addr base n (i + 1) (UPDATE_HASH Hash (ucast (Addr ! (base + i))))
      else Hash)"
  by pat_completeness auto
termination
  by (relation "measure (\<lambda>(Addr, base, n, i, Hash). n - i)") auto

declare hash_loop.simps [simp del]

definition QuicAddrHash :: "QUIC_ADDR \<Rightarrow> uint32_t" where
  "QuicAddrHash Addr =
     (let Hash = 5387 in
      if si_family Addr = AF_INET then
        (let Hash = UPDATE_HASH Hash (ucast (Ipv4_sin_port Addr AND 0xFF));
             Hash = UPDATE_HASH Hash (ucast (drop_bit 8 (Ipv4_sin_port Addr)))
         in hash_loop Addr QUIC_ADDR_V4_IP_OFFSET sizeof_IN_ADDR 0 Hash)
      else
        (let Hash = UPDATE_HASH Hash (ucast (Ipv6_sin6_port Addr AND 0xFF));
             Hash = UPDATE_HASH Hash (ucast (drop_bit 8 (Ipv6_sin6_port Addr)))
         in hash_loop Addr QUIC_ADDR_V6_IP_OFFSET sizeof_IN6_ADDR 0 Hash))"

subsection \<open>The hash as the specification words it\<close>

text \<open>
  The reference computation of the specification, written from its words and not from
  the code: the bytes folded in are the low byte of the raw port, its high byte, and
  the address bytes in order (4 for IPv4, 16 otherwise); the seed is 5387 and every
  byte updates \<open>h\<close> to \<open>h * 31 + byte\<close> modulo \<open>2 ^ 32\<close>.
\<close>

definition hash_input :: "QUIC_ADDR \<Rightarrow> uint8_t list" where
  "hash_input Addr =
     [ucast (Ipv4_sin_port Addr), ucast (drop_bit 8 (Ipv4_sin_port Addr))] @
     (if si_family Addr = AF_INET then Ipv4_sin_addr Addr else Ipv6_sin6_addr Addr)"

definition Hash_reference :: "QUIC_ADDR \<Rightarrow> nat" where
  "Hash_reference Addr =
     foldl (\<lambda>h byte. (h * 31 + unat byte) mod 2 ^ 32) 5387 (hash_input Addr)"

subsection \<open>The comparison with its reads\<close>

text \<open>
  To state which bytes a comparison reads, \<^verbatim>\<open>QuicAddrCompareIp\<close> and
  \<^verbatim>\<open>QuicAddrCompare\<close> are given a second time in state-passing style: the state is
  the log of the offsets loaded so far (from either operand), in the order of the
  loads. The control flow is that of the source: \<^verbatim>\<open>||\<close> evaluates its right operand
  only when the left one is false, and \<^verbatim>\<open>memcmp\<close> may read every byte it is given.
\<close>

type_synonym read_log = "nat list"

definition read_u16 :: "QUIC_ADDR \<Rightarrow> nat \<Rightarrow> read_log \<Rightarrow> uint16_t \<times> read_log" where
  "read_u16 m off log = (load_u16 m off, log @ [off, off + 1])"

definition read_memcmp ::
  "QUIC_ADDR \<Rightarrow> QUIC_ADDR \<Rightarrow> nat \<Rightarrow> nat \<Rightarrow> read_log \<Rightarrow> int \<times> read_log" where
  "read_memcmp m1 m2 off n log = (memcmp (drop off m1) (drop off m2) n, log @ [off ..< off + n])"

definition QuicAddrCompareIp_reads ::
  "QUIC_ADDR \<Rightarrow> QUIC_ADDR \<Rightarrow> read_log \<Rightarrow> bool \<times> read_log" where
  "QuicAddrCompareIp_reads Addr1 Addr2 log =
     (case read_u16 Addr1 SI_FAMILY_OFFSET log of (family1, log1) \<Rightarrow>
        if family1 = AF_INET then
          (case read_memcmp Addr1 Addr2 QUIC_ADDR_V4_IP_OFFSET sizeof_IN_ADDR log1 of
             (r, log2) \<Rightarrow> (r = 0, log2))
        else
          (case read_memcmp Addr1 Addr2 QUIC_ADDR_V6_IP_OFFSET sizeof_IN6_ADDR log1 of
             (r, log2) \<Rightarrow> (r = 0, log2)))"

definition QuicAddrCompare_reads ::
  "QUIC_ADDR \<Rightarrow> QUIC_ADDR \<Rightarrow> read_log \<Rightarrow> bool \<times> read_log" where
  "QuicAddrCompare_reads Addr1 Addr2 log =
     (case read_u16 Addr1 SI_FAMILY_OFFSET log of (family1, log1) \<Rightarrow>
      case read_u16 Addr2 SI_FAMILY_OFFSET log1 of (family2, log2) \<Rightarrow>
        if family1 \<noteq> family2 then (False, log2)
        else
          (case read_u16 Addr1 QUIC_ADDR_V4_PORT_OFFSET log2 of (port1, log3) \<Rightarrow>
           case read_u16 Addr2 QUIC_ADDR_V4_PORT_OFFSET log3 of (port2, log4) \<Rightarrow>
             if port1 \<noteq> port2 then (False, log4)
             else QuicAddrCompareIp_reads Addr1 Addr2 log4))"

subsection \<open>The wildcard test with the storage it leaves\<close>

text \<open>
  To state that \<^verbatim>\<open>QuicAddrIsWildCard\<close> has no effect on the address it is given,
  the function is written a second time in state-passing style: the state is the
  storage its pointer refers to, and it is returned with the result. The steps are those
  of the source, two loads of the family tag and one \<^verbatim>\<open>memcmp\<close> against the local
  \<^verbatim>\<open>ZeroAddr\<close>; a load and a comparison hand the storage on as they found it, and the
  source has no assignment through \<^verbatim>\<open>Addr\<close>.
\<close>

definition load_u16_st :: "QUIC_ADDR \<Rightarrow> nat \<Rightarrow> uint16_t \<times> QUIC_ADDR" where
  "load_u16_st m off = (load_u16 m off, m)"

definition memcmp_st :: "QUIC_ADDR \<Rightarrow> nat \<Rightarrow> uint8_t list \<Rightarrow> nat \<Rightarrow> int \<times> QUIC_ADDR" where
  "memcmp_st m off q n = (memcmp (drop off m) q n, m)"

definition QuicAddrIsWildCard_st :: "QUIC_ADDR \<Rightarrow> bool \<times> QUIC_ADDR" where
  "QuicAddrIsWildCard_st Addr =
     (case load_u16_st Addr SI_FAMILY_OFFSET of (family1, Addr1) \<Rightarrow>
        if family1 = AF_UNSPEC then (True, Addr1)
        else
          (case load_u16_st Addr1 SI_FAMILY_OFFSET of (family2, Addr2) \<Rightarrow>
             if family2 = AF_INET then
               (case memcmp_st Addr2 QUIC_ADDR_V4_IP_OFFSET (ZeroAddr sizeof_IN_ADDR)
                       sizeof_IN_ADDR of
                  (r, Addr3) \<Rightarrow> (r = 0, Addr3))
             else
               (case memcmp_st Addr2 QUIC_ADDR_V6_IP_OFFSET (ZeroAddr sizeof_IN6_ADDR)
                       sizeof_IN6_ADDR of
                  (r, Addr3) \<Rightarrow> (r = 0, Addr3))))"

section \<open>Auxiliary facts\<close>

lemmas status_defs =
  QUIC_FAILED_def QUIC_SUCCEEDED_def NT_SUCCESS_def
  STATUS_QUIC_HANDSHAKE_FAILURE_def STATUS_QUIC_VER_NEG_FAILURE_def
  STATUS_QUIC_USER_CANCELED_def STATUS_SUCCESS_def STATUS_PENDING_def STATUS_REPARSE_def
  STATUS_NO_MEMORY_def STATUS_INVALID_PARAMETER_def STATUS_INVALID_DEVICE_STATE_def
  STATUS_NOT_SUPPORTED_def STATUS_NOT_FOUND_def STATUS_BUFFER_TOO_SMALL_def
  STATUS_CANCELLED_def STATUS_ADDRESS_ALREADY_EXISTS_def STATUS_CONNECTION_DISCONNECTED_def
  STATUS_CONNECTION_ABORTED_def STATUS_HOST_UNREACHABLE_def STATUS_INTERNAL_ERROR_def
  STATUS_CONNECTION_REFUSED_def STATUS_CONNECTION_INVALID_def
  QUIC_STATUS_SUCCESS_def QUIC_STATUS_PENDING_def QUIC_STATUS_CONTINUE_def
  QUIC_STATUS_OUT_OF_MEMORY_def QUIC_STATUS_INVALID_PARAMETER_def
  QUIC_STATUS_INVALID_STATE_def QUIC_STATUS_NOT_SUPPORTED_def QUIC_STATUS_NOT_FOUND_def
  QUIC_STATUS_BUFFER_TOO_SMALL_def QUIC_STATUS_HANDSHAKE_FAILURE_def
  QUIC_STATUS_ABORTED_def QUIC_STATUS_ADDRESS_IN_USE_def
  QUIC_STATUS_CONNECTION_TIMEOUT_def QUIC_STATUS_CONNECTION_IDLE_def
  QUIC_STATUS_UNREACHABLE_def QUIC_STATUS_INTERNAL_ERROR_def QUIC_STATUS_SERVER_BUSY_def
  QUIC_STATUS_PROTOCOL_ERROR_def QUIC_STATUS_VER_NEG_ERROR_def
  QUIC_STATUS_USER_CANCELED_def

lemmas layout_defs =
  sizeof_QUIC_ADDR_def QUIC_ADDR_wf_def AF_UNSPEC_def AF_INET_def AF_INET6_def
  SI_FAMILY_OFFSET_def QUIC_ADDR_V4_PORT_OFFSET_def QUIC_ADDR_V4_IP_OFFSET_def
  QUIC_ADDR_V6_PORT_OFFSET_def QUIC_ADDR_V6_IP_OFFSET_def
  QUIC_ADDR_V6_SCOPE_ID_OFFSET_def sizeof_IN_ADDR_def sizeof_IN6_ADDR_def

lemmas member_defs =
  si_family_def Ipv4_sin_port_def Ipv6_sin6_port_def Ipv4_sin_addr_def
  Ipv6_sin6_addr_def Ipv6_sin6_scope_id_def load_bytes_def

subsection \<open>Masks and the byte swap\<close>

lemma mask_ff_32: "(0xff :: 32 word) = mask 8"
  by (simp add: mask_eq_exp_minus_1)

lemma mask_ff00_32: "(0xff00 :: 32 word) = push_bit 8 (mask 8)"
  by (simp add: mask_eq_exp_minus_1 push_bit_eq_mult)

lemma mask_ff_16: "(0xff :: 16 word) = mask 8"
  by (simp add: mask_eq_exp_minus_1)

lemma QuicNetByteSwapShort_alt: "QuicNetByteSwapShort x = push_bit 8 x OR drop_bit 8 x"
  unfolding QuicNetByteSwapShort_def mask_ff_32 mask_ff00_32
  by (rule bit_eqI) (auto simp add: bit_simps dest: bit_imp_le_length)

lemma QuicNetByteSwapShort_involution: "QuicNetByteSwapShort (QuicNetByteSwapShort x) = x"
  unfolding QuicNetByteSwapShort_alt
  by (rule bit_eqI) (auto simp add: bit_simps dest: bit_imp_le_length)

lemma QuicNetByteSwapShort_low:
  "(ucast (QuicNetByteSwapShort x) :: uint8_t) = ucast (drop_bit 8 x)"
  unfolding QuicNetByteSwapShort_alt
  by (rule bit_eqI) (auto simp add: bit_simps dest: bit_imp_le_length)

lemma QuicNetByteSwapShort_high:
  "(ucast (drop_bit 8 (QuicNetByteSwapShort x)) :: uint8_t) = ucast x"
  unfolding QuicNetByteSwapShort_alt
  by (rule bit_eqI) (auto simp add: bit_simps dest: bit_imp_le_length)

subsection \<open>Loads and stores\<close>

lemma load_store_u16: "off + 1 < length m \<Longrightarrow> load_u16 (store_u16 m off v) off = v"
  unfolding load_u16_def store_u16_def
  by (rule bit_eqI) (auto simp add: bit_simps dest: bit_imp_le_length)

lemma load_u16_low: "(ucast (load_u16 m off) :: uint8_t) = m ! off"
  unfolding load_u16_def
  by (rule bit_eqI) (auto simp add: bit_simps dest: bit_imp_le_length)

lemma load_u16_high: "(ucast (drop_bit 8 (load_u16 m off)) :: uint8_t) = m ! (off + 1)"
  unfolding load_u16_def
  by (rule bit_eqI) (auto simp add: bit_simps dest: bit_imp_le_length)

lemma load_u16_low_32: "(ucast (load_u16 m off AND 0xFF) :: uint32_t) = ucast (m ! off)"
  unfolding load_u16_def mask_ff_16
  by (rule bit_eqI) (auto simp add: bit_simps dest: bit_imp_le_length)

lemma load_u16_high_32:
  "(ucast (drop_bit 8 (load_u16 m off)) :: uint32_t) = ucast (m ! (off + 1))"
  unfolding load_u16_def
  by (rule bit_eqI) (auto simp add: bit_simps dest: bit_imp_le_length)

lemma load_u16_eq_iff:
  "load_u16 a off = load_u16 b off' \<longleftrightarrow> a ! off = b ! off' \<and> a ! (off + 1) = b ! (off' + 1)"
proof
  assume h: "load_u16 a off = load_u16 b off'"
  have "a ! off = ucast (load_u16 a off)"
    by (simp add: load_u16_low)
  moreover have "a ! (off + 1) = ucast (drop_bit 8 (load_u16 a off))"
    by (simp add: load_u16_high)
  ultimately show "a ! off = b ! off' \<and> a ! (off + 1) = b ! (off' + 1)"
    by (simp add: h load_u16_low load_u16_high)
next
  assume "a ! off = b ! off' \<and> a ! (off + 1) = b ! (off' + 1)"
  then show "load_u16 a off = load_u16 b off'"
    by (simp add: load_u16_def)
qed

lemma load_u32_byte0: "(ucast (load_u32 m off) :: uint8_t) = m ! off"
  unfolding load_u32_def
  by (rule bit_eqI) (auto simp add: bit_simps dest: bit_imp_le_length)

lemma load_u32_byte1: "(ucast (drop_bit 8 (load_u32 m off)) :: uint8_t) = m ! (off + 1)"
  unfolding load_u32_def
  by (rule bit_eqI) (auto simp add: bit_simps dest: bit_imp_le_length)

lemma load_u32_byte2: "(ucast (drop_bit 16 (load_u32 m off)) :: uint8_t) = m ! (off + 2)"
  unfolding load_u32_def
  by (rule bit_eqI) (auto simp add: bit_simps dest: bit_imp_le_length)

lemma load_u32_byte3: "(ucast (drop_bit 24 (load_u32 m off)) :: uint8_t) = m ! (off + 3)"
  unfolding load_u32_def
  by (rule bit_eqI) (auto simp add: bit_simps dest: bit_imp_le_length)

lemma load_u32_eq_0_iff:
  "load_u32 m off = 0 \<longleftrightarrow>
     m ! off = 0 \<and> m ! (off + 1) = 0 \<and> m ! (off + 2) = 0 \<and> m ! (off + 3) = 0"
proof
  assume h: "load_u32 m off = 0"
  have "m ! off = ucast (load_u32 m off)"
    "m ! (off + 1) = ucast (drop_bit 8 (load_u32 m off))"
    "m ! (off + 2) = ucast (drop_bit 16 (load_u32 m off))"
    "m ! (off + 3) = ucast (drop_bit 24 (load_u32 m off))"
    by (simp_all add: load_u32_byte0 load_u32_byte1 load_u32_byte2 load_u32_byte3)
  then show "m ! off = 0 \<and> m ! (off + 1) = 0 \<and> m ! (off + 2) = 0 \<and> m ! (off + 3) = 0"
    by (simp add: h)
next
  assume "m ! off = 0 \<and> m ! (off + 1) = 0 \<and> m ! (off + 2) = 0 \<and> m ! (off + 3) = 0"
  then show "load_u32 m off = 0"
    by (simp add: load_u32_def)
qed

subsection \<open>\<^verbatim>\<open>memcmp\<close> and the hash loop\<close>

lemma memcmp_eq_0_iff:
  "n \<le> length xs \<Longrightarrow> n \<le> length ys \<Longrightarrow> (memcmp xs ys n = 0) = (take n xs = take n ys)"
proof (induction xs ys n rule: memcmp.induct)
  case (1 x xs y ys n)
  then show ?case by auto
qed auto

lemma hash_loop_foldl:
  "hash_loop Addr base n i Hash =
     foldl (\<lambda>h j. UPDATE_HASH h (ucast (Addr ! (base + j)))) Hash [i..<n]"
proof (induction Addr base n i Hash rule: hash_loop.induct)
  case (1 Addr base n i Hash)
  show ?case
  proof (cases "i < n")
    case True
    with 1 show ?thesis
      by (subst hash_loop.simps) (simp add: upt_conv_Cons)
  next
    case False
    then show ?thesis
      by (subst hash_loop.simps) simp
  qed
qed

lemma UPDATE_HASH_times_31: "UPDATE_HASH h b = h * 31 + b"
  by (simp add: UPDATE_HASH_def push_bit_eq_mult)

lemma list_of_length_4: "length xs = 4 \<Longrightarrow> xs = [xs ! 0, xs ! 1, xs ! 2, xs ! 3]"
  by (auto simp add: length_Suc_conv eval_nat_numeral)

lemma load_bytes_4:
  "off + 4 \<le> length m \<Longrightarrow>
     load_bytes m off 4 = [m ! off, m ! (off + 1), m ! (off + 2), m ! (off + 3)]"
  using list_of_length_4 [of "load_bytes m off 4"] by (simp add: load_bytes_def)

lemma load_bytes_nth:
  "off + n \<le> length m \<Longrightarrow> load_bytes m off n = map (\<lambda>j. m ! (off + j)) [0..<n]"
  by (rule nth_equalityI) (simp_all add: load_bytes_def)

lemma hash_loop_load_bytes:
  assumes "base + n \<le> length Addr"
  shows "hash_loop Addr base n 0 Hash =
    foldl (\<lambda>h b. UPDATE_HASH h (ucast b)) Hash (load_bytes Addr base n)"
  by (simp add: hash_loop_foldl load_bytes_nth [OF assms] foldl_map)

subsection \<open>The hash as one fold, the comparison as one equation\<close>

lemma QuicAddrHash_foldl:
  assumes "QUIC_ADDR_wf Addr"
  shows "QuicAddrHash Addr = foldl (\<lambda>h b. UPDATE_HASH h (ucast b)) 5387 (hash_input Addr)"
proof -
  from assms have "QUIC_ADDR_V4_IP_OFFSET + sizeof_IN_ADDR \<le> length Addr"
    "QUIC_ADDR_V6_IP_OFFSET + sizeof_IN6_ADDR \<le> length Addr"
    by (simp_all add: layout_defs)
  then show ?thesis
    by (simp add: QuicAddrHash_def hash_input_def hash_loop_load_bytes
        Ipv4_sin_addr_def Ipv6_sin6_addr_def Ipv4_sin_port_def Ipv6_sin6_port_def
        load_u16_low_32 load_u16_high_32 load_u16_low load_u16_high
        QUIC_ADDR_V4_PORT_OFFSET_def QUIC_ADDR_V6_PORT_OFFSET_def)
qed

lemma hash_input_cong:
  assumes "si_family a = si_family b" and "Ipv4_sin_port a = Ipv4_sin_port b"
    and "if si_family a = AF_INET then Ipv4_sin_addr a = Ipv4_sin_addr b
         else Ipv6_sin6_addr a = Ipv6_sin6_addr b"
  shows "hash_input a = hash_input b"
  using assms by (simp add: hash_input_def split: if_splits)

lemma QuicAddrCompare_iff:
  assumes "QUIC_ADDR_wf a" and "QUIC_ADDR_wf b"
  shows "QuicAddrCompare a b =
    (si_family a = si_family b \<and> Ipv4_sin_port a = Ipv4_sin_port b \<and>
     (if si_family a = AF_INET then Ipv4_sin_addr a = Ipv4_sin_addr b
      else Ipv6_sin6_addr a = Ipv6_sin6_addr b))"
  using assms
  by (auto simp add: QuicAddrCompare_def QuicAddrCompareIp_def memcmp_eq_0_iff
      Ipv4_sin_addr_def Ipv6_sin6_addr_def load_bytes_def QUIC_ADDR_wf_def
      sizeof_QUIC_ADDR_def QUIC_ADDR_V4_IP_OFFSET_def QUIC_ADDR_V6_IP_OFFSET_def
      sizeof_IN_ADDR_def sizeof_IN6_ADDR_def)

lemma unat_ucast_8_32: "unat (ucast (b :: uint8_t) :: uint32_t) = unat b"
proof -
  have "unat b < 2 ^ 8"
    using unsigned_less [of b] by simp
  then have "unat b < 2 ^ 32"
    by simp
  then show ?thesis
    by (simp add: unsigned_ucast_eq take_bit_nat_eq_self)
qed

lemma unat_hash_fold:
  "unat (foldl (\<lambda>h b. UPDATE_HASH h (ucast b)) h0 (bs :: uint8_t list)) =
   foldl (\<lambda>h byte. (h * 31 + unat byte) mod 2 ^ 32) (unat h0) bs"
proof (induction bs arbitrary: h0)
  case Nil
  show ?case by simp
next
  case (Cons b bs)
  have "unat (UPDATE_HASH h0 (ucast b)) = (unat h0 * 31 + unat b) mod 2 ^ 32"
    by (simp add: UPDATE_HASH_times_31 unat_word_ariths unat_ucast_8_32 mod_simps)
  with Cons show ?case by simp
qed

subsection \<open>Short lists written out\<close>

lemma replicate_4: "replicate 4 x = [x, x, x, x]"
  by (simp add: eval_nat_numeral)

lemma replicate_15: "replicate 15 x = [x, x, x, x, x, x, x, x, x, x, x, x, x, x, x]"
  by (simp add: eval_nat_numeral)

lemma replicate_16: "replicate 16 x = [x, x, x, x, x, x, x, x, x, x, x, x, x, x, x, x]"
  by (simp add: eval_nat_numeral)

subsection \<open>The logged comparison returns what the comparison returns\<close>

lemma QuicAddrCompare_reads_fst:
  "fst (QuicAddrCompare_reads a b log) = QuicAddrCompare a b"
  by (simp add: QuicAddrCompare_reads_def QuicAddrCompareIp_reads_def QuicAddrCompare_def
      QuicAddrCompareIp_def read_u16_def read_memcmp_def si_family_def Ipv4_sin_port_def)

section \<open>Status classification\<close>

text \<open>
  Claim C4, as the code has it. Of the twenty mapped status values, three are not
  failures: success, pending and continue are non-negative, so \<open>QUIC_SUCCEEDED\<close>
  holds and \<open>QUIC_FAILED\<close> does not. Each of the other seventeen is negative and
  satisfies \<open>QUIC_FAILED\<close>.
\<close>

theorem status_classification:
  "QUIC_SUCCEEDED QUIC_STATUS_SUCCESS \<and> \<not> QUIC_FAILED QUIC_STATUS_SUCCESS \<and>
   QUIC_SUCCEEDED QUIC_STATUS_PENDING \<and> \<not> QUIC_FAILED QUIC_STATUS_PENDING \<and>
   QUIC_SUCCEEDED QUIC_STATUS_CONTINUE \<and> \<not> QUIC_FAILED QUIC_STATUS_CONTINUE \<and>
   QUIC_FAILED QUIC_STATUS_OUT_OF_MEMORY \<and>
   QUIC_FAILED QUIC_STATUS_INVALID_PARAMETER \<and>
   QUIC_FAILED QUIC_STATUS_INVALID_STATE \<and>
   QUIC_FAILED QUIC_STATUS_NOT_SUPPORTED \<and>
   QUIC_FAILED QUIC_STATUS_NOT_FOUND \<and>
   QUIC_FAILED QUIC_STATUS_BUFFER_TOO_SMALL \<and>
   QUIC_FAILED QUIC_STATUS_HANDSHAKE_FAILURE \<and>
   QUIC_FAILED QUIC_STATUS_ABORTED \<and>
   QUIC_FAILED QUIC_STATUS_ADDRESS_IN_USE \<and>
   QUIC_FAILED QUIC_STATUS_CONNECTION_TIMEOUT \<and>
   QUIC_FAILED QUIC_STATUS_CONNECTION_IDLE \<and>
   QUIC_FAILED QUIC_STATUS_UNREACHABLE \<and>
   QUIC_FAILED QUIC_STATUS_INTERNAL_ERROR \<and>
   QUIC_FAILED QUIC_STATUS_SERVER_BUSY \<and>
   QUIC_FAILED QUIC_STATUS_PROTOCOL_ERROR \<and>
   QUIC_FAILED QUIC_STATUS_VER_NEG_ERROR \<and>
   QUIC_FAILED QUIC_STATUS_USER_CANCELED"
  by (simp add: status_defs)

text \<open>
  Claim C4 as it is worded asks \<open>QUIC_FAILED\<close> of every mapped value other than
  success. The pending and the continue value do not satisfy it.
\<close>

theorem pending_and_continue_are_not_failures:
  "\<not> QUIC_FAILED QUIC_STATUS_PENDING \<and> \<not> QUIC_FAILED QUIC_STATUS_CONTINUE"
  by (simp add: status_defs)

text \<open>
  Claim C10. For every 32-bit status code, \<open>QUIC_FAILED\<close> is the negation of
  \<open>QUIC_SUCCEEDED\<close>, and \<open>QUIC_SUCCEEDED\<close> holds exactly when the code read as a
  signed 32-bit integer is not negative, that is when its sign bit is clear. The
  mapped pending value \<open>0x00000103\<close> and continue value \<open>0x00000104\<close> succeed.
\<close>

theorem failed_is_not_succeeded:
  "QUIC_FAILED c = (\<not> QUIC_SUCCEEDED c) \<and>
   QUIC_SUCCEEDED c = (0 \<le> sint c) \<and>
   QUIC_SUCCEEDED c = (\<not> bit c 31) \<and>
   QUIC_STATUS_PENDING = 0x00000103 \<and> QUIC_SUCCEEDED QUIC_STATUS_PENDING \<and>
   QUIC_STATUS_CONTINUE = 0x00000104 \<and> QUIC_SUCCEEDED QUIC_STATUS_CONTINUE"
proof -
  have "bit c 31 = (sint c < 0)"
    using bit_last_iff [of c] by simp
  then have "QUIC_SUCCEEDED c = (\<not> bit c 31)"
    by (simp add: QUIC_SUCCEEDED_def NT_SUCCESS_def not_less)
  then show ?thesis
    by (simp add: status_defs)
qed

section \<open>Equality and hashing\<close>

text \<open>
  Claim C1. For all addresses \<open>a\<close> and \<open>b\<close>, if \<open>QuicAddrCompare a b\<close> returns
  true then \<open>QuicAddrHash a = QuicAddrHash b\<close>; equal family, equal raw port bits and
  equal family-selected address payload together imply equal hash values.
\<close>

theorem equal_addresses_hash_alike:
  assumes "QUIC_ADDR_wf a" and "QUIC_ADDR_wf b"
  shows "(QuicAddrCompare a b \<longrightarrow> QuicAddrHash a = QuicAddrHash b) \<and>
    (si_family a = si_family b \<and> Ipv4_sin_port a = Ipv4_sin_port b \<and>
      (if si_family a = AF_INET then Ipv4_sin_addr a = Ipv4_sin_addr b
       else Ipv6_sin6_addr a = Ipv6_sin6_addr b) \<longrightarrow> QuicAddrHash a = QuicAddrHash b)"
proof -
  have "QuicAddrHash a = QuicAddrHash b"
    if "si_family a = si_family b" "Ipv4_sin_port a = Ipv4_sin_port b"
      "if si_family a = AF_INET then Ipv4_sin_addr a = Ipv4_sin_addr b
       else Ipv6_sin6_addr a = Ipv6_sin6_addr b"
    using hash_input_cong [OF that] assms by (simp add: QuicAddrHash_foldl)
  then show ?thesis
    using QuicAddrCompare_iff [OF assms] by blast
qed

text \<open>
  The scenario of the specification: 192.168.1.1, port 443, built twice. The second
  copy holds other bytes in the unused part behind the IPv4 address; the two still
  compare equal and hash alike.
\<close>

theorem equal_addresses_hash_alike_witness:
  "QUIC_ADDR_wf [2, 0, 1, 0xBB, 192, 168, 1, 1, 0, 0, 0, 0, 0, 0, 0, 0, 0, 0, 0, 0, 0, 0, 0, 0, 0, 0, 0, 0] \<and>
   QUIC_ADDR_wf [2, 0, 1, 0xBB, 192, 168, 1, 1, 9, 9, 9, 9, 9, 9, 9, 9, 9, 9, 9, 9, 9, 9, 9, 9, 0, 0, 0, 0] \<and>
   QuicAddrCompare
     [2, 0, 1, 0xBB, 192, 168, 1, 1, 0, 0, 0, 0, 0, 0, 0, 0, 0, 0, 0, 0, 0, 0, 0, 0, 0, 0, 0, 0]
     [2, 0, 1, 0xBB, 192, 168, 1, 1, 9, 9, 9, 9, 9, 9, 9, 9, 9, 9, 9, 9, 9, 9, 9, 9, 0, 0, 0, 0] \<and>
   QuicAddrHash [2, 0, 1, 0xBB, 192, 168, 1, 1, 0, 0, 0, 0, 0, 0, 0, 0, 0, 0, 0, 0, 0, 0, 0, 0, 0, 0, 0, 0] =
   QuicAddrHash [2, 0, 1, 0xBB, 192, 168, 1, 1, 9, 9, 9, 9, 9, 9, 9, 9, 9, 9, 9, 9, 9, 9, 9, 9, 0, 0, 0, 0]"
proof -
  let ?A = "[2, 0, 1, 0xBB, 192, 168, 1, 1, 0, 0, 0, 0, 0, 0, 0, 0, 0, 0, 0, 0, 0, 0, 0, 0, 0, 0, 0, 0] :: QUIC_ADDR"
  let ?B = "[2, 0, 1, 0xBB, 192, 168, 1, 1, 9, 9, 9, 9, 9, 9, 9, 9, 9, 9, 9, 9, 9, 9, 9, 9, 0, 0, 0, 0] :: QUIC_ADDR"
  have wf: "QUIC_ADDR_wf ?A" "QUIC_ADDR_wf ?B"
    by (simp_all add: layout_defs)
  have fam: "si_family ?A = AF_INET" "si_family ?B = AF_INET"
    by (simp_all add: si_family_def load_u16_def layout_defs)
  have port: "Ipv4_sin_port ?A = Ipv4_sin_port ?B"
    by (simp add: Ipv4_sin_port_def load_u16_eq_iff layout_defs)
  have ip: "Ipv4_sin_addr ?A = Ipv4_sin_addr ?B"
    by (simp add: member_defs layout_defs)
  have "QuicAddrCompare ?A ?B"
    using fam port ip by (simp add: QuicAddrCompare_iff [OF wf])
  with equal_addresses_hash_alike [OF wf] wf show ?thesis
    by simp
qed

text \<open>
  Claim C5. For all addresses \<open>a\<close> and \<open>b\<close>, \<open>QuicAddrCompare a b\<close> returns false
  whenever the family tags differ or the raw network-order port bits differ, and then
  no load of the comparison touches an address payload byte (the offsets from the IPv4
  payload to the end of the IPv6 payload). Otherwise its result is the byte-for-byte
  equality of the IPv4 payload (4 bytes) when \<open>a\<close>'s family is IPv4, and of the IPv6
  payload (16 bytes) for any other family, with no normalisation. The logged
  comparison returns the result of the comparison.
\<close>

theorem compare_short_circuits_then_compares_bytes:
  assumes "QUIC_ADDR_wf a" and "QUIC_ADDR_wf b"
  shows "(si_family a \<noteq> si_family b \<or> Ipv4_sin_port a \<noteq> Ipv4_sin_port b \<longrightarrow>
            \<not> QuicAddrCompare a b \<and>
            set (snd (QuicAddrCompare_reads a b [])) \<inter>
              {QUIC_ADDR_V4_IP_OFFSET ..< QUIC_ADDR_V6_IP_OFFSET + sizeof_IN6_ADDR} = {}) \<and>
         (si_family a = si_family b \<and> Ipv4_sin_port a = Ipv4_sin_port b \<longrightarrow>
            QuicAddrCompare a b =
              (if si_family a = AF_INET then Ipv4_sin_addr a = Ipv4_sin_addr b
               else Ipv6_sin6_addr a = Ipv6_sin6_addr b)) \<and>
         fst (QuicAddrCompare_reads a b []) = QuicAddrCompare a b"
proof -
  have "set (snd (QuicAddrCompare_reads a b [])) \<inter>
      {QUIC_ADDR_V4_IP_OFFSET ..< QUIC_ADDR_V6_IP_OFFSET + sizeof_IN6_ADDR} = {}"
    if "si_family a \<noteq> si_family b \<or> Ipv4_sin_port a \<noteq> Ipv4_sin_port b"
    using that
    by (auto simp add: QuicAddrCompare_reads_def read_u16_def si_family_def
        Ipv4_sin_port_def layout_defs)
  then show ?thesis
    using QuicAddrCompare_iff [OF assms] by (auto simp add: QuicAddrCompare_reads_fst)
qed

text \<open>
  192.168.1.1 port 443 against the same address with port 8443: unequal, and the loads
  are those of the two family tags and the two ports. Against a copy with the same
  family, port and IPv4 bytes: equal.
\<close>

theorem compare_short_circuits_then_compares_bytes_witness:
  "QUIC_ADDR_wf [2, 0, 1, 0xBB, 192, 168, 1, 1, 0, 0, 0, 0, 0, 0, 0, 0, 0, 0, 0, 0, 0, 0, 0, 0, 0, 0, 0, 0] \<and>
   QUIC_ADDR_wf [2, 0, 0x20, 0xFB, 192, 168, 1, 1, 0, 0, 0, 0, 0, 0, 0, 0, 0, 0, 0, 0, 0, 0, 0, 0, 0, 0, 0, 0] \<and>
   QUIC_ADDR_wf [2, 0, 1, 0xBB, 192, 168, 1, 1, 9, 9, 9, 9, 9, 9, 9, 9, 9, 9, 9, 9, 9, 9, 9, 9, 0, 0, 0, 0] \<and>
   \<not> QuicAddrCompare
     [2, 0, 1, 0xBB, 192, 168, 1, 1, 0, 0, 0, 0, 0, 0, 0, 0, 0, 0, 0, 0, 0, 0, 0, 0, 0, 0, 0, 0]
     [2, 0, 0x20, 0xFB, 192, 168, 1, 1, 0, 0, 0, 0, 0, 0, 0, 0, 0, 0, 0, 0, 0, 0, 0, 0, 0, 0, 0, 0] \<and>
   snd (QuicAddrCompare_reads
     [2, 0, 1, 0xBB, 192, 168, 1, 1, 0, 0, 0, 0, 0, 0, 0, 0, 0, 0, 0, 0, 0, 0, 0, 0, 0, 0, 0, 0]
     [2, 0, 0x20, 0xFB, 192, 168, 1, 1, 0, 0, 0, 0, 0, 0, 0, 0, 0, 0, 0, 0, 0, 0, 0, 0, 0, 0, 0, 0] []) =
     [0, 1, 0, 1, 2, 3, 2, 3] \<and>
   QuicAddrCompare
     [2, 0, 1, 0xBB, 192, 168, 1, 1, 0, 0, 0, 0, 0, 0, 0, 0, 0, 0, 0, 0, 0, 0, 0, 0, 0, 0, 0, 0]
     [2, 0, 1, 0xBB, 192, 168, 1, 1, 9, 9, 9, 9, 9, 9, 9, 9, 9, 9, 9, 9, 9, 9, 9, 9, 0, 0, 0, 0]"
proof -
  let ?A = "[2, 0, 1, 0xBB, 192, 168, 1, 1, 0, 0, 0, 0, 0, 0, 0, 0, 0, 0, 0, 0, 0, 0, 0, 0, 0, 0, 0, 0] :: QUIC_ADDR"
  let ?B = "[2, 0, 0x20, 0xFB, 192, 168, 1, 1, 0, 0, 0, 0, 0, 0, 0, 0, 0, 0, 0, 0, 0, 0, 0, 0, 0, 0, 0, 0] :: QUIC_ADDR"
  let ?C = "[2, 0, 1, 0xBB, 192, 168, 1, 1, 9, 9, 9, 9, 9, 9, 9, 9, 9, 9, 9, 9, 9, 9, 9, 9, 0, 0, 0, 0] :: QUIC_ADDR"
  have wf: "QUIC_ADDR_wf ?A" "QUIC_ADDR_wf ?B" "QUIC_ADDR_wf ?C"
    by (simp_all add: layout_defs)
  have fam: "si_family ?A = AF_INET" "si_family ?B = AF_INET" "si_family ?C = AF_INET"
    by (simp_all add: si_family_def load_u16_def layout_defs)
  have port: "Ipv4_sin_port ?A \<noteq> Ipv4_sin_port ?B" "Ipv4_sin_port ?A = Ipv4_sin_port ?C"
    by (simp_all add: Ipv4_sin_port_def load_u16_eq_iff layout_defs)
  have ip: "Ipv4_sin_addr ?A = Ipv4_sin_addr ?C"
    by (simp add: member_defs layout_defs)
  have log: "snd (QuicAddrCompare_reads ?A ?B []) = [0, 1, 0, 1, 2, 3, 2, 3]"
    using fam port
    by (simp add: QuicAddrCompare_reads_def read_u16_def si_family_def Ipv4_sin_port_def
        layout_defs)
  from compare_short_circuits_then_compares_bytes [OF wf(1) wf(2)]
    compare_short_circuits_then_compares_bytes [OF wf(1) wf(3)] wf fam port ip log
  show ?thesis
    by simp
qed

text \<open>
  Claim C8. For every address \<open>a\<close>, \<open>QuicAddrHash a\<close> equals the reference
  computation: start with the 32-bit seed 5387, then for the low byte of the raw
  network-order port, then its high byte, then each address byte in order (4 bytes when
  the family is IPv4, 16 bytes otherwise), update \<open>h\<close> to \<open>(h << 5) - h + byte\<close>, that
  is \<open>h * 31 + byte\<close>, modulo \<open>2 ^ 32\<close>.
\<close>

theorem hash_is_reference_computation:
  assumes "QUIC_ADDR_wf a"
  shows "unat (QuicAddrHash a) = Hash_reference a \<and>
    (\<forall>h byte. UPDATE_HASH h byte = h * 31 + byte) \<and>
    length (hash_input a) = (if si_family a = AF_INET then 6 else 18)"
proof -
  have "unat (QuicAddrHash a) = Hash_reference a"
    by (simp add: QuicAddrHash_foldl [OF assms] unat_hash_fold Hash_reference_def)
  moreover have "length (hash_input a) = (if si_family a = AF_INET then 6 else 18)"
    using assms by (simp add: hash_input_def member_defs layout_defs)
  ultimately show ?thesis
    by (simp add: UPDATE_HASH_times_31)
qed

text \<open>The hashes of 192.168.1.1 port 443 and of 2001:db8::5 port 443.\<close>

theorem hash_is_reference_computation_witness:
  "QUIC_ADDR_wf [2, 0, 1, 0xBB, 192, 168, 1, 1, 0, 0, 0, 0, 0, 0, 0, 0, 0, 0, 0, 0, 0, 0, 0, 0, 0, 0, 0, 0] \<and>
   unat (QuicAddrHash [2, 0, 1, 0xBB, 192, 168, 1, 1, 0, 0, 0, 0, 0, 0, 0, 0, 0, 0, 0, 0, 0, 0, 0, 0, 0, 0, 0, 0]) = 890938029 \<and>
   QUIC_ADDR_wf [23, 0, 1, 0xBB, 0, 0, 0, 0, 0x20, 0x01, 0x0D, 0xB8, 0, 0, 0, 0, 0, 0, 0, 0, 0, 0, 0, 5, 0, 0, 0, 0] \<and>
   unat (QuicAddrHash [23, 0, 1, 0xBB, 0, 0, 0, 0, 0x20, 0x01, 0x0D, 0xB8, 0, 0, 0, 0, 0, 0, 0, 0, 0, 0, 0, 5, 0, 0, 0, 0]) = 4085589270"
proof -
  let ?A = "[2, 0, 1, 0xBB, 192, 168, 1, 1, 0, 0, 0, 0, 0, 0, 0, 0, 0, 0, 0, 0, 0, 0, 0, 0, 0, 0, 0, 0] :: QUIC_ADDR"
  let ?B = "[23, 0, 1, 0xBB, 0, 0, 0, 0, 0x20, 0x01, 0x0D, 0xB8, 0, 0, 0, 0, 0, 0, 0, 0, 0, 0, 0, 5, 0, 0, 0, 0] :: QUIC_ADDR"
  have wf: "QUIC_ADDR_wf ?A" "QUIC_ADDR_wf ?B"
    by (simp_all add: layout_defs)
  have fam: "si_family ?A = AF_INET" "si_family ?B = AF_INET6"
    by (simp_all add: si_family_def load_u16_def layout_defs)
  have "hash_input ?A = [1, 0xBB, 192, 168, 1, 1]"
    using fam(1)
    by (simp add: hash_input_def Ipv4_sin_port_def Ipv4_sin_addr_def load_bytes_def
        load_u16_low load_u16_high layout_defs)
  then have A: "Hash_reference ?A = 890938029"
    by (simp add: Hash_reference_def)
  have "hash_input ?B = [1, 0xBB, 0x20, 0x01, 0x0D, 0xB8, 0, 0, 0, 0, 0, 0, 0, 0, 0, 0, 0, 5]"
    using fam(2)
    by (simp add: hash_input_def Ipv4_sin_port_def Ipv6_sin6_addr_def load_bytes_def
        load_u16_low load_u16_high layout_defs)
  then have B: "Hash_reference ?B = 4085589270"
    by (simp add: Hash_reference_def)
  from hash_is_reference_computation [OF wf(1)] hash_is_reference_computation [OF wf(2)]
    wf A B
  show ?thesis
    by simp
qed

section \<open>Port accessors\<close>

text \<open>
  Claim C2. For every address \<open>a\<close> and every 16-bit host-order port \<open>p\<close>,
  \<open>QuicAddrGetPort (QuicAddrSetPort a p) = p\<close>: \<open>QuicAddrSetPort\<close> stores the
  byte-swapped value and \<open>QuicAddrGetPort\<close> byte-swaps it back, and the byte swap used
  by both exchanges the two bytes of a 16-bit word (so it is its own inverse).
\<close>

theorem port_round_trip:
  assumes "QUIC_ADDR_wf a"
  shows "QuicAddrGetPort (QuicAddrSetPort a p) = p \<and>
    Ipv4_sin_port (QuicAddrSetPort a p) = QuicNetByteSwapShort p \<and>
    QuicNetByteSwapShort (QuicNetByteSwapShort p) = p \<and>
    (ucast (QuicNetByteSwapShort p) :: uint8_t) = ucast (drop_bit 8 p) \<and>
    (ucast (drop_bit 8 (QuicNetByteSwapShort p)) :: uint8_t) = ucast p"
proof -
  from assms have "QUIC_ADDR_V4_PORT_OFFSET + 1 < length a"
    by (simp add: layout_defs)
  then have "Ipv4_sin_port (QuicAddrSetPort a p) = QuicNetByteSwapShort p"
    by (simp add: Ipv4_sin_port_def QuicAddrSetPort_def load_store_u16)
  then show ?thesis
    by (simp add: QuicAddrGetPort_def QuicNetByteSwapShort_involution
        QuicNetByteSwapShort_low QuicNetByteSwapShort_high)
qed

text \<open>Port 443 is stored as the bytes \<open>0x01\<close>, \<open>0xBB\<close> and read back as 443.\<close>

theorem port_round_trip_witness:
  "QUIC_ADDR_wf [2, 0, 0, 0, 192, 168, 1, 1, 0, 0, 0, 0, 0, 0, 0, 0, 0, 0, 0, 0, 0, 0, 0, 0, 0, 0, 0, 0] \<and>
   QuicAddrSetPort [2, 0, 0, 0, 192, 168, 1, 1, 0, 0, 0, 0, 0, 0, 0, 0, 0, 0, 0, 0, 0, 0, 0, 0, 0, 0, 0, 0] 443 =
     [2, 0, 1, 0xBB, 192, 168, 1, 1, 0, 0, 0, 0, 0, 0, 0, 0, 0, 0, 0, 0, 0, 0, 0, 0, 0, 0, 0, 0] \<and>
   QuicAddrGetPort (QuicAddrSetPort
     [2, 0, 0, 0, 192, 168, 1, 1, 0, 0, 0, 0, 0, 0, 0, 0, 0, 0, 0, 0, 0, 0, 0, 0, 0, 0, 0, 0] 443) = 443"
proof -
  let ?A = "[2, 0, 0, 0, 192, 168, 1, 1, 0, 0, 0, 0, 0, 0, 0, 0, 0, 0, 0, 0, 0, 0, 0, 0, 0, 0, 0, 0] :: QUIC_ADDR"
  have wf: "QUIC_ADDR_wf ?A"
    by (simp add: layout_defs)
  have stored: "QuicAddrSetPort ?A 443 =
      [2, 0, 1, 0xBB, 192, 168, 1, 1, 0, 0, 0, 0, 0, 0, 0, 0, 0, 0, 0, 0, 0, 0, 0, 0, 0, 0, 0, 0]"
    by (simp add: QuicAddrSetPort_def store_u16_def QuicNetByteSwapShort_def layout_defs)
  from port_round_trip [OF wf, of 443] wf stored show ?thesis
    by simp
qed

section \<open>Wildcard and loopback\<close>

text \<open>
  Claim C6. For every address \<open>a\<close> (a value that \<open>QuicAddrIsValid\<close> accepts: its
  family is UNSPECIFIED, IPv4 or IPv6), \<open>QuicAddrIsWildCard a\<close> returns true if and
  only if \<open>a\<close>'s family is UNSPECIFIED (whatever the payload bytes), or its family is
  IPv4 and its 4 address bytes are all zero, or its family is IPv6 and its 16 address
  bytes are all zero; the predicate has no side effects on \<open>a\<close>: run with the storage
  of \<open>a\<close> as its state, it returns that storage unchanged with its result.
\<close>

theorem wildcard_characterisation:
  assumes "QUIC_ADDR_wf a" and "QuicAddrIsValid a"
  shows "QuicAddrIsWildCard a =
      (si_family a = AF_UNSPEC \<or>
       (si_family a = AF_INET \<and> Ipv4_sin_addr a = replicate 4 0) \<or>
       (si_family a = AF_INET6 \<and> Ipv6_sin6_addr a = replicate 16 0)) \<and>
     QuicAddrIsWildCard_st a = (QuicAddrIsWildCard a, a)"
proof -
  have "QuicAddrIsWildCard_st a = (QuicAddrIsWildCard a, a)"
    by (simp add: QuicAddrIsWildCard_st_def QuicAddrIsWildCard_def load_u16_st_def
        memcmp_st_def si_family_def)
  moreover have "QuicAddrIsWildCard a =
      (si_family a = AF_UNSPEC \<or>
       (si_family a = AF_INET \<and> Ipv4_sin_addr a = replicate 4 0) \<or>
       (si_family a = AF_INET6 \<and> Ipv6_sin6_addr a = replicate 16 0))"
    using assms
    by (auto simp add: QuicAddrIsWildCard_def QuicAddrIsValid_def ZeroAddr_def
        memcmp_eq_0_iff Ipv4_sin_addr_def Ipv6_sin6_addr_def load_bytes_def QUIC_ADDR_wf_def
        sizeof_QUIC_ADDR_def QUIC_ADDR_V4_IP_OFFSET_def QUIC_ADDR_V6_IP_OFFSET_def
        sizeof_IN_ADDR_def sizeof_IN6_ADDR_def AF_UNSPEC_def AF_INET_def AF_INET6_def)
  ultimately show ?thesis
    by simp
qed

text \<open>
  An address of family UNSPECIFIED is a wildcard though its payload bytes are not
  zero; the IPv4 address 0.0.0.0 with port 443 is one, whatever the bytes beyond the
  IPv4 payload are; the IPv6 address ::5 is none. Each call hands its storage back.
\<close>

theorem wildcard_characterisation_witness:
  "QUIC_ADDR_wf [0, 0, 1, 0xBB, 192, 168, 1, 1, 7, 7, 7, 7, 7, 7, 7, 7, 0, 0, 0, 0, 0, 0, 0, 0, 0, 0, 0, 0] \<and>
   QuicAddrIsValid [0, 0, 1, 0xBB, 192, 168, 1, 1, 7, 7, 7, 7, 7, 7, 7, 7, 0, 0, 0, 0, 0, 0, 0, 0, 0, 0, 0, 0] \<and>
   QuicAddrIsWildCard_st [0, 0, 1, 0xBB, 192, 168, 1, 1, 7, 7, 7, 7, 7, 7, 7, 7, 0, 0, 0, 0, 0, 0, 0, 0, 0, 0, 0, 0] =
     (True, [0, 0, 1, 0xBB, 192, 168, 1, 1, 7, 7, 7, 7, 7, 7, 7, 7, 0, 0, 0, 0, 0, 0, 0, 0, 0, 0, 0, 0]) \<and>
   QUIC_ADDR_wf [2, 0, 1, 0xBB, 0, 0, 0, 0, 7, 7, 7, 7, 7, 7, 7, 7, 0, 0, 0, 0, 0, 0, 0, 0, 0, 0, 0, 0] \<and>
   QuicAddrIsValid [2, 0, 1, 0xBB, 0, 0, 0, 0, 7, 7, 7, 7, 7, 7, 7, 7, 0, 0, 0, 0, 0, 0, 0, 0, 0, 0, 0, 0] \<and>
   QuicAddrIsWildCard_st [2, 0, 1, 0xBB, 0, 0, 0, 0, 7, 7, 7, 7, 7, 7, 7, 7, 0, 0, 0, 0, 0, 0, 0, 0, 0, 0, 0, 0] =
     (True, [2, 0, 1, 0xBB, 0, 0, 0, 0, 7, 7, 7, 7, 7, 7, 7, 7, 0, 0, 0, 0, 0, 0, 0, 0, 0, 0, 0, 0]) \<and>
   QUIC_ADDR_wf [23, 0, 1, 0xBB, 0, 0, 0, 0, 0, 0, 0, 0, 0, 0, 0, 0, 0, 0, 0, 0, 0, 0, 0, 5, 0, 0, 0, 0] \<and>
   QuicAddrIsValid [23, 0, 1, 0xBB, 0, 0, 0, 0, 0, 0, 0, 0, 0, 0, 0, 0, 0, 0, 0, 0, 0, 0, 0, 5, 0, 0, 0, 0] \<and>
   QuicAddrIsWildCard_st [23, 0, 1, 0xBB, 0, 0, 0, 0, 0, 0, 0, 0, 0, 0, 0, 0, 0, 0, 0, 0, 0, 0, 0, 5, 0, 0, 0, 0] =
     (False, [23, 0, 1, 0xBB, 0, 0, 0, 0, 0, 0, 0, 0, 0, 0, 0, 0, 0, 0, 0, 0, 0, 0, 0, 5, 0, 0, 0, 0])"
proof -
  let ?U = "[0, 0, 1, 0xBB, 192, 168, 1, 1, 7, 7, 7, 7, 7, 7, 7, 7, 0, 0, 0, 0, 0, 0, 0, 0, 0, 0, 0, 0] :: QUIC_ADDR"
  let ?W = "[2, 0, 1, 0xBB, 0, 0, 0, 0, 7, 7, 7, 7, 7, 7, 7, 7, 0, 0, 0, 0, 0, 0, 0, 0, 0, 0, 0, 0] :: QUIC_ADDR"
  let ?V = "[23, 0, 1, 0xBB, 0, 0, 0, 0, 0, 0, 0, 0, 0, 0, 0, 0, 0, 0, 0, 0, 0, 0, 0, 5, 0, 0, 0, 0] :: QUIC_ADDR"
  have wf: "QUIC_ADDR_wf ?U" "QUIC_ADDR_wf ?W" "QUIC_ADDR_wf ?V"
    by (simp_all add: layout_defs)
  have fam: "si_family ?U = AF_UNSPEC" "si_family ?W = AF_INET" "si_family ?V = AF_INET6"
    by (simp_all add: si_family_def load_u16_def layout_defs)
  then have valid: "QuicAddrIsValid ?U" "QuicAddrIsValid ?W" "QuicAddrIsValid ?V"
    by (simp_all add: QuicAddrIsValid_def)
  have ip: "Ipv4_sin_addr ?W = replicate 4 0" "Ipv6_sin6_addr ?V \<noteq> replicate 16 0"
    by (simp_all add: member_defs layout_defs replicate_4 replicate_16)
  have tags: "AF_INET6 \<noteq> AF_UNSPEC" "AF_INET6 \<noteq> AF_INET" "AF_INET \<noteq> AF_UNSPEC"
    by (simp_all add: layout_defs)
  note U = wildcard_characterisation [OF wf(1) valid(1)]
  note W = wildcard_characterisation [OF wf(2) valid(2)]
  note V = wildcard_characterisation [OF wf(3) valid(3)]
  have u: "QuicAddrIsWildCard ?U"
    using U [THEN conjunct1] fam(1) by simp
  have w: "QuicAddrIsWildCard ?W"
    using W [THEN conjunct1] fam(2) ip(1) by simp
  have v: "\<not> QuicAddrIsWildCard ?V"
    using V [THEN conjunct1] fam(3) ip(2) tags by simp
  from U [THEN conjunct2] W [THEN conjunct2] V [THEN conjunct2] u w v wf valid
  show ?thesis
    by simp
qed

text \<open>
  Claim C3, as the code has it. For every address whose family is IPv4,
  \<open>QuicAddrSetToLoopback\<close> sets the first IPv4 address byte to 127 and the fourth to
  1 and keeps the second and the third, so the four bytes are 127.0.0.1 exactly when
  the second and the third byte were zero before the call. For every address whose
  family is IPv6, it sets the last IPv6 address byte to 1 and keeps the first fifteen,
  so the sixteen bytes are ::1 exactly when the first fifteen were zero before the call.
\<close>

theorem loopback_bytes:
  assumes "QUIC_ADDR_wf a"
  shows "(si_family a = AF_INET \<longrightarrow>
       Ipv4_sin_addr (QuicAddrSetToLoopback a) =
         [127, Ipv4_sin_addr a ! 1, Ipv4_sin_addr a ! 2, 1] \<and>
       (Ipv4_sin_addr (QuicAddrSetToLoopback a) = [127, 0, 0, 1]) =
         (Ipv4_sin_addr a ! 1 = 0 \<and> Ipv4_sin_addr a ! 2 = 0)) \<and>
     (si_family a = AF_INET6 \<longrightarrow>
       Ipv6_sin6_addr (QuicAddrSetToLoopback a) = take 15 (Ipv6_sin6_addr a) @ [1] \<and>
       (Ipv6_sin6_addr (QuicAddrSetToLoopback a) = replicate 15 0 @ [1]) =
         (take 15 (Ipv6_sin6_addr a) = replicate 15 0))"
proof -
  from assms have len: "length a = 28"
    by (simp add: layout_defs)
  have v4: "Ipv4_sin_addr (a[4 := 127, 7 := 1]) =
      [127, Ipv4_sin_addr a ! 1, Ipv4_sin_addr a ! 2, 1]"
    using len by (simp add: Ipv4_sin_addr_def load_bytes_4 layout_defs)
  have "Ipv6_sin6_addr (a[23 := 1]) = (Ipv6_sin6_addr a)[15 := 1]"
    using len
    by (simp add: Ipv6_sin6_addr_def load_bytes_def layout_defs drop_update_swap
        take_update_swap)
  also have "\<dots> = take 15 (Ipv6_sin6_addr a) @ [1]"
    using len
    by (simp add: upd_conv_take_nth_drop Ipv6_sin6_addr_def load_bytes_def layout_defs)
  finally have v6: "Ipv6_sin6_addr (a[23 := 1]) = take 15 (Ipv6_sin6_addr a) @ [1]" .
  have "length (take 15 (Ipv6_sin6_addr a)) = length (replicate 15 (0 :: uint8_t))"
    using len by (simp add: Ipv6_sin6_addr_def load_bytes_def layout_defs)
  then have e6: "(take 15 (Ipv6_sin6_addr a) @ [1] = replicate 15 0 @ [1]) =
      (take 15 (Ipv6_sin6_addr a) = replicate 15 0)"
    by simp
  show ?thesis
    using v4 v6 e6 by (simp add: QuicAddrSetToLoopback_def layout_defs)
qed

text \<open>
  10.0.0.7 becomes 127.0.0.1, and the IPv6 address ::9 becomes ::1: in both the bytes
  that the function does not write are zero.
\<close>

theorem loopback_bytes_witness:
  "QUIC_ADDR_wf [2, 0, 1, 0xBB, 10, 0, 0, 7, 0, 0, 0, 0, 0, 0, 0, 0, 0, 0, 0, 0, 0, 0, 0, 0, 0, 0, 0, 0] \<and>
   si_family [2, 0, 1, 0xBB, 10, 0, 0, 7, 0, 0, 0, 0, 0, 0, 0, 0, 0, 0, 0, 0, 0, 0, 0, 0, 0, 0, 0, 0] = AF_INET \<and>
   Ipv4_sin_addr (QuicAddrSetToLoopback
     [2, 0, 1, 0xBB, 10, 0, 0, 7, 0, 0, 0, 0, 0, 0, 0, 0, 0, 0, 0, 0, 0, 0, 0, 0, 0, 0, 0, 0]) = [127, 0, 0, 1] \<and>
   QUIC_ADDR_wf [23, 0, 1, 0xBB, 0, 0, 0, 0, 0, 0, 0, 0, 0, 0, 0, 0, 0, 0, 0, 0, 0, 0, 0, 9, 0, 0, 0, 0] \<and>
   si_family [23, 0, 1, 0xBB, 0, 0, 0, 0, 0, 0, 0, 0, 0, 0, 0, 0, 0, 0, 0, 0, 0, 0, 0, 9, 0, 0, 0, 0] = AF_INET6 \<and>
   Ipv6_sin6_addr (QuicAddrSetToLoopback
     [23, 0, 1, 0xBB, 0, 0, 0, 0, 0, 0, 0, 0, 0, 0, 0, 0, 0, 0, 0, 0, 0, 0, 0, 9, 0, 0, 0, 0]) =
     [0, 0, 0, 0, 0, 0, 0, 0, 0, 0, 0, 0, 0, 0, 0, 1]"
proof -
  let ?A = "[2, 0, 1, 0xBB, 10, 0, 0, 7, 0, 0, 0, 0, 0, 0, 0, 0, 0, 0, 0, 0, 0, 0, 0, 0, 0, 0, 0, 0] :: QUIC_ADDR"
  let ?B = "[23, 0, 1, 0xBB, 0, 0, 0, 0, 0, 0, 0, 0, 0, 0, 0, 0, 0, 0, 0, 0, 0, 0, 0, 9, 0, 0, 0, 0] :: QUIC_ADDR"
  have wf: "QUIC_ADDR_wf ?A" "QUIC_ADDR_wf ?B"
    by (simp_all add: layout_defs)
  have fam: "si_family ?A = AF_INET" "si_family ?B = AF_INET6"
    by (simp_all add: si_family_def load_u16_def layout_defs)
  have old: "Ipv4_sin_addr ?A ! 1 = 0" "Ipv4_sin_addr ?A ! 2 = 0"
    "take 15 (Ipv6_sin6_addr ?B) = replicate 15 0"
    by (simp_all add: member_defs layout_defs replicate_15)
  from loopback_bytes [OF wf(1)] loopback_bytes [OF wf(2)] wf fam old show ?thesis
    by (simp add: replicate_15)
qed

text \<open>
  Claim C3 as it is worded promises the loopback bytes whatever the address held
  before. On the IPv4 address 192.168.1.1 the call yields 127.168.1.1, and on the IPv6
  address 2001:db8::5 it yields 2001:db8::1.
\<close>

theorem loopback_keeps_other_bytes:
  "si_family [2, 0, 1, 0xBB, 192, 168, 1, 1, 0, 0, 0, 0, 0, 0, 0, 0, 0, 0, 0, 0, 0, 0, 0, 0, 0, 0, 0, 0] = AF_INET \<and>
   Ipv4_sin_addr (QuicAddrSetToLoopback
     [2, 0, 1, 0xBB, 192, 168, 1, 1, 0, 0, 0, 0, 0, 0, 0, 0, 0, 0, 0, 0, 0, 0, 0, 0, 0, 0, 0, 0]) = [127, 168, 1, 1] \<and>
   Ipv4_sin_addr (QuicAddrSetToLoopback
     [2, 0, 1, 0xBB, 192, 168, 1, 1, 0, 0, 0, 0, 0, 0, 0, 0, 0, 0, 0, 0, 0, 0, 0, 0, 0, 0, 0, 0]) \<noteq> [127, 0, 0, 1] \<and>
   si_family [23, 0, 1, 0xBB, 0, 0, 0, 0, 0x20, 0x01, 0x0D, 0xB8, 0, 0, 0, 0, 0, 0, 0, 0, 0, 0, 0, 5, 0, 0, 0, 0] = AF_INET6 \<and>
   Ipv6_sin6_addr (QuicAddrSetToLoopback
     [23, 0, 1, 0xBB, 0, 0, 0, 0, 0x20, 0x01, 0x0D, 0xB8, 0, 0, 0, 0, 0, 0, 0, 0, 0, 0, 0, 5, 0, 0, 0, 0]) =
     [0x20, 0x01, 0x0D, 0xB8, 0, 0, 0, 0, 0, 0, 0, 0, 0, 0, 0, 1] \<and>
   Ipv6_sin6_addr (QuicAddrSetToLoopback
     [23, 0, 1, 0xBB, 0, 0, 0, 0, 0x20, 0x01, 0x0D, 0xB8, 0, 0, 0, 0, 0, 0, 0, 0, 0, 0, 0, 5, 0, 0, 0, 0]) \<noteq>
     [0, 0, 0, 0, 0, 0, 0, 0, 0, 0, 0, 0, 0, 0, 0, 1]"
  by (simp add: QuicAddrSetToLoopback_def member_defs load_u16_def layout_defs)

text \<open>
  Claim C9. For every address \<open>a\<close> whose family is IPv4 or IPv6,
  \<open>QuicAddrSetToLoopback a\<close> leaves the family tag, the port field and the IPv6
  scope id field unchanged; only address payload bytes are modified: every byte before
  and every byte after the payload of the address's family keeps its value, and the
  size of the value is kept.
\<close>

theorem loopback_frame:
  assumes "QUIC_ADDR_wf a" and "si_family a = AF_INET \<or> si_family a = AF_INET6"
  shows "si_family (QuicAddrSetToLoopback a) = si_family a \<and>
     Ipv4_sin_port (QuicAddrSetToLoopback a) = Ipv4_sin_port a \<and>
     Ipv6_sin6_port (QuicAddrSetToLoopback a) = Ipv6_sin6_port a \<and>
     Ipv6_sin6_scope_id (QuicAddrSetToLoopback a) = Ipv6_sin6_scope_id a \<and>
     QUIC_ADDR_wf (QuicAddrSetToLoopback a) \<and>
     (if si_family a = AF_INET
      then take QUIC_ADDR_V4_IP_OFFSET (QuicAddrSetToLoopback a) =
             take QUIC_ADDR_V4_IP_OFFSET a \<and>
           drop (QUIC_ADDR_V4_IP_OFFSET + sizeof_IN_ADDR) (QuicAddrSetToLoopback a) =
             drop (QUIC_ADDR_V4_IP_OFFSET + sizeof_IN_ADDR) a
      else take QUIC_ADDR_V6_IP_OFFSET (QuicAddrSetToLoopback a) =
             take QUIC_ADDR_V6_IP_OFFSET a \<and>
           drop (QUIC_ADDR_V6_IP_OFFSET + sizeof_IN6_ADDR) (QuicAddrSetToLoopback a) =
             drop (QUIC_ADDR_V6_IP_OFFSET + sizeof_IN6_ADDR) a)"
  using assms
  by (simp add: QuicAddrSetToLoopback_def member_defs load_u16_def load_u32_def layout_defs
      drop_update_swap)

text \<open>The IPv6 address 2001:db8::5 with port 443 and scope id 3.\<close>

theorem loopback_frame_witness:
  "QUIC_ADDR_wf [23, 0, 1, 0xBB, 0, 0, 0, 0, 0x20, 0x01, 0x0D, 0xB8, 0, 0, 0, 0, 0, 0, 0, 0, 0, 0, 0, 5, 3, 0, 0, 0] \<and>
   si_family [23, 0, 1, 0xBB, 0, 0, 0, 0, 0x20, 0x01, 0x0D, 0xB8, 0, 0, 0, 0, 0, 0, 0, 0, 0, 0, 0, 5, 3, 0, 0, 0] = AF_INET6 \<and>
   QuicAddrSetToLoopback [23, 0, 1, 0xBB, 0, 0, 0, 0, 0x20, 0x01, 0x0D, 0xB8, 0, 0, 0, 0, 0, 0, 0, 0, 0, 0, 0, 5, 3, 0, 0, 0] =
     [23, 0, 1, 0xBB, 0, 0, 0, 0, 0x20, 0x01, 0x0D, 0xB8, 0, 0, 0, 0, 0, 0, 0, 0, 0, 0, 0, 1, 3, 0, 0, 0] \<and>
   QuicAddrGetPort (QuicAddrSetToLoopback
     [23, 0, 1, 0xBB, 0, 0, 0, 0, 0x20, 0x01, 0x0D, 0xB8, 0, 0, 0, 0, 0, 0, 0, 0, 0, 0, 0, 5, 3, 0, 0, 0]) = 443 \<and>
   Ipv6_sin6_scope_id (QuicAddrSetToLoopback
     [23, 0, 1, 0xBB, 0, 0, 0, 0, 0x20, 0x01, 0x0D, 0xB8, 0, 0, 0, 0, 0, 0, 0, 0, 0, 0, 0, 5, 3, 0, 0, 0]) = 3"
proof -
  let ?A = "[23, 0, 1, 0xBB, 0, 0, 0, 0, 0x20, 0x01, 0x0D, 0xB8, 0, 0, 0, 0, 0, 0, 0, 0, 0, 0, 0, 5, 3, 0, 0, 0] :: QUIC_ADDR"
  have wf: "QUIC_ADDR_wf ?A"
    by (simp add: layout_defs)
  have fam: "si_family ?A = AF_INET6"
    by (simp add: si_family_def load_u16_def layout_defs)
  have val: "QuicAddrSetToLoopback ?A =
      [23, 0, 1, 0xBB, 0, 0, 0, 0, 0x20, 0x01, 0x0D, 0xB8, 0, 0, 0, 0, 0, 0, 0, 0, 0, 0, 0, 1, 3, 0, 0, 0]"
    using fam by (simp add: QuicAddrSetToLoopback_def layout_defs)
  have old: "Ipv4_sin_port ?A = 0xBB01" "Ipv6_sin6_scope_id ?A = 3"
    by (simp_all add: member_defs load_u16_def load_u32_def layout_defs)
  have "QuicNetByteSwapShort 0xBB01 = 443"
    by (simp add: QuicNetByteSwapShort_def)
  with loopback_frame [OF wf] wf fam val old show ?thesis
    by (simp add: QuicAddrGetPort_def)
qed

section \<open>Explicit binding\<close>

text \<open>
  Claim C7. For every address \<open>a\<close> of any family (IPv4 included),
  \<open>QuicAddrIsBoundExplicitly a\<close> returns true exactly when the IPv6 scope id field,
  read at its fixed offset, is zero, that is when the four bytes at that offset are
  zero; the result is independent of every other field: a write to any byte before the
  scope id (family, port, address bytes) does not change it.
\<close>

theorem bound_explicitly_reads_scope_id_only:
  assumes "QUIC_ADDR_wf a" and "i < QUIC_ADDR_V6_SCOPE_ID_OFFSET"
  shows "QuicAddrIsBoundExplicitly a = (Ipv6_sin6_scope_id a = 0) \<and>
    QuicAddrIsBoundExplicitly a =
      (load_bytes a QUIC_ADDR_V6_SCOPE_ID_OFFSET 4 = [0, 0, 0, 0]) \<and>
    QuicAddrIsBoundExplicitly (a[i := v]) = QuicAddrIsBoundExplicitly a"
proof -
  from assms(1)
  have "load_bytes a QUIC_ADDR_V6_SCOPE_ID_OFFSET 4 = [a ! 24, a ! 25, a ! 26, a ! 27]"
    by (simp add: load_bytes_4 layout_defs)
  moreover have "QuicAddrIsBoundExplicitly b =
      (b ! 24 = 0 \<and> b ! 25 = 0 \<and> b ! 26 = 0 \<and> b ! 27 = 0)" for b
    by (simp add: QuicAddrIsBoundExplicitly_def Ipv6_sin6_scope_id_def load_u32_eq_0_iff
        layout_defs)
  ultimately show ?thesis
    using assms(2) by (simp add: QuicAddrIsBoundExplicitly_def layout_defs)
qed

text \<open>
  An IPv4 address whose bytes at the scope id offset are zero is bound explicitly, and
  stays so when its family tag is overwritten; the same address with the scope id
  \<open>0x00010000\<close> is not.
\<close>

theorem bound_explicitly_reads_scope_id_only_witness:
  "QUIC_ADDR_wf [2, 0, 1, 0xBB, 192, 168, 1, 1, 0, 0, 0, 0, 0, 0, 0, 0, 0, 0, 0, 0, 0, 0, 0, 0, 0, 0, 0, 0] \<and>
   (0 :: nat) < QUIC_ADDR_V6_SCOPE_ID_OFFSET \<and>
   QuicAddrIsBoundExplicitly [2, 0, 1, 0xBB, 192, 168, 1, 1, 0, 0, 0, 0, 0, 0, 0, 0, 0, 0, 0, 0, 0, 0, 0, 0, 0, 0, 0, 0] \<and>
   QuicAddrIsBoundExplicitly ([2, 0, 1, 0xBB, 192, 168, 1, 1, 0, 0, 0, 0, 0, 0, 0, 0, 0, 0, 0, 0, 0, 0, 0, 0, 0, 0, 0, 0][0 := 23]) \<and>
   QUIC_ADDR_wf [2, 0, 1, 0xBB, 192, 168, 1, 1, 0, 0, 0, 0, 0, 0, 0, 0, 0, 0, 0, 0, 0, 0, 0, 0, 0, 0, 1, 0] \<and>
   \<not> QuicAddrIsBoundExplicitly [2, 0, 1, 0xBB, 192, 168, 1, 1, 0, 0, 0, 0, 0, 0, 0, 0, 0, 0, 0, 0, 0, 0, 0, 0, 0, 0, 1, 0]"
proof -
  let ?A = "[2, 0, 1, 0xBB, 192, 168, 1, 1, 0, 0, 0, 0, 0, 0, 0, 0, 0, 0, 0, 0, 0, 0, 0, 0, 0, 0, 0, 0] :: QUIC_ADDR"
  let ?B = "[2, 0, 1, 0xBB, 192, 168, 1, 1, 0, 0, 0, 0, 0, 0, 0, 0, 0, 0, 0, 0, 0, 0, 0, 0, 0, 0, 1, 0] :: QUIC_ADDR"
  have wf: "QUIC_ADDR_wf ?A" "QUIC_ADDR_wf ?B"
    by (simp_all add: layout_defs)
  have i: "(0 :: nat) < QUIC_ADDR_V6_SCOPE_ID_OFFSET"
    by (simp add: layout_defs)
  have scope: "load_bytes ?A QUIC_ADDR_V6_SCOPE_ID_OFFSET 4 = [0, 0, 0, 0]"
    "load_bytes ?B QUIC_ADDR_V6_SCOPE_ID_OFFSET 4 \<noteq> [0, 0, 0, 0]"
    by (simp_all add: load_bytes_def layout_defs)
  note A = bound_explicitly_reads_scope_id_only [OF wf(1) i, of 23]
  note B = bound_explicitly_reads_scope_id_only [OF wf(2) i, of 23]
  have a: "QuicAddrIsBoundExplicitly ?A"
    using A [THEN conjunct2, THEN conjunct1] scope(1) by simp
  have a': "QuicAddrIsBoundExplicitly (?A[0 := 23])"
    using A [THEN conjunct2, THEN conjunct2] a by simp
  have b: "\<not> QuicAddrIsBoundExplicitly ?B"
    using B [THEN conjunct2, THEN conjunct1] scope(2) by simp
  from wf i a a' b show ?thesis
    by simp
qed

end
